theory Spec2Isabelle
  imports Main
begin

section \<open>JavaScript values\<close>

text \<open>
  The worker is JavaScript and reads every field of the request and of the two upstream
  documents dynamically, so the model works on JavaScript values. A parsed JSON document
  is built from \<open>JNull\<close>, \<open>JBool\<close>, \<open>JNum\<close>, \<open>JStr\<close>, \<open>JArr\<close> and \<open>JObj\<close>;
  \<open>JUndefined\<close> is what reading an absent property gives, \<open>JNaN\<close> is the number a failed
  numeric conversion gives, and \<open>JBuiltin k\<close> is the member \<open>k\<close> that every object literal
  inherits from \<open>Object.prototype\<close> (a native function, or for \<open>__proto__\<close> the prototype
  object itself).

  Scope of the model: a string is a list of code units below 256 (\<^typ>\<open>char\<close> is the code
  unit, so the Latin-1 part of UTF-16), and \<open>JNum n\<close> is the JSON number with the integer
  value \<open>n\<close>, of magnitude below \<open>2^53\<close>, where doubles are exact and print in plain
  decimal notation. An object is the list of its own properties, keys distinct.
\<close>

datatype jsval =
    JUndefined
  | JNull
  | JBool bool
  | JNum int
  | JNaN
  | JStr string
  | JArr "jsval list"
  | JObj "(string \<times> jsval) list"
  | JBuiltin string

text \<open>A thrown \<open>Error\<close> and its \<open>message\<close>; the wording of a message is the engine's and no
  result depends on it.\<close>

datatype js_error = TypeError string | RangeError string

fun error_message :: "js_error \<Rightarrow> string" where
  "error_message (TypeError m) = m"
| "error_message (RangeError m) = m"

text \<open>\<open>ToBoolean\<close>: what \<open>!x\<close>, \<open>x && y\<close> and \<open>x || y\<close> test.\<close>

fun truthy :: "jsval \<Rightarrow> bool" where
  "truthy JUndefined = False"
| "truthy JNull = False"
| "truthy (JBool b) = b"
| "truthy (JNum n) = (n \<noteq> 0)"
| "truthy JNaN = False"
| "truthy (JStr s) = (s \<noteq> [])"
| "truthy (JArr xs) = True"
| "truthy (JObj kvs) = True"
| "truthy (JBuiltin k) = True"

fun typeof :: "jsval \<Rightarrow> string" where
  "typeof JUndefined = ''undefined''"
| "typeof JNull = ''object''"
| "typeof (JBool b) = ''boolean''"
| "typeof (JNum n) = ''number''"
| "typeof JNaN = ''number''"
| "typeof (JStr s) = ''string''"
| "typeof (JArr xs) = ''object''"
| "typeof (JObj kvs) = ''object''"
| "typeof (JBuiltin k) = (if k = ''__proto__'' then ''object'' else ''function'')"

subsection \<open>Reading properties\<close>

text \<open>The members of \<open>Object.prototype\<close>: an object without an own property of that name
  answers with the inherited one.\<close>

definition object_prototype_keys :: "string list" where
  "object_prototype_keys =
     [''constructor'', ''__defineGetter__'', ''__defineSetter__'', ''hasOwnProperty'',
      ''__lookupGetter__'', ''__lookupSetter__'', ''isPrototypeOf'',
      ''propertyIsEnumerable'', ''toString'', ''valueOf'', ''__proto__'',
      ''toLocaleString'']"

definition object_get :: "(string \<times> jsval) list \<Rightarrow> string \<Rightarrow> jsval" where
  "object_get kvs k =
     (case map_of kvs k of
        Some v \<Rightarrow> v
      | None \<Rightarrow> if k \<in> set object_prototype_keys then JBuiltin k else JUndefined)"

text \<open>\<open>v.k\<close> on a value that is neither \<open>null\<close> nor \<open>undefined\<close>. The handler reads from
  parsed JSON only, and only the names \<open>roll\<close>, \<open>no\<close>, \<open>registration\<close>, \<open>referralKey\<close>,
  \<open>identifier\<close>, \<open>message\<close>, \<open>name\<close>, \<open>ROll_No\<close>, \<open>Reg_No\<close>, \<open>payment_id\<close>, \<open>email\<close> and
  \<open>phone\<close>: none of them is an index, \<open>length\<close> or a member of the String, Number, Boolean
  or Array prototype, so a primitive and an array answer \<open>undefined\<close>.\<close>

fun read_prop :: "jsval \<Rightarrow> string \<Rightarrow> jsval" where
  "read_prop (JObj kvs) k = object_get kvs k"
| "read_prop v k = JUndefined"

fun nullish :: "jsval \<Rightarrow> bool" where
  "nullish JUndefined = True"
| "nullish JNull = True"
| "nullish v = False"

text \<open>\<open>v.k\<close> in general: reading a property of \<open>null\<close> or \<open>undefined\<close> throws.\<close>

definition get_prop :: "jsval \<Rightarrow> string \<Rightarrow> js_error + jsval" where
  "get_prop v k =
     (if nullish v then Inl (TypeError (''Cannot read properties of null (reading '' @ k @ '')''))
      else Inr (read_prop v k))"

subsection \<open>Strings\<close>

definition digit_char :: "nat \<Rightarrow> char" where
  "digit_char d = ''0123456789'' ! d"

fun string_of_nat :: "nat \<Rightarrow> string" where
  "string_of_nat n =
     (if n < 10 then [digit_char n] else string_of_nat (n div 10) @ [digit_char (n mod 10)])"

declare string_of_nat.simps [simp del]

definition string_of_int :: "int \<Rightarrow> string" where
  "string_of_int i = (if i < 0 then ''-'' @ string_of_nat (nat (- i)) else string_of_nat (nat i))"

fun join_comma :: "string list \<Rightarrow> string" where
  "join_comma [] = []"
| "join_comma [s] = s"
| "join_comma (s # t # ss) = s @ '','' @ join_comma (t # ss)"

text \<open>\<open>ToString\<close>. An array is its elements joined by commas, \<open>null\<close> and \<open>undefined\<close>
  elements giving the empty string. A parsed object has no callable own property: with an
  own \<open>toString\<close> key the conversion finds nothing to call that returns a primitive and
  throws; without one \<open>Object.prototype.toString\<close> answers.\<close>

fun to_string :: "jsval \<Rightarrow> js_error + string"
  and elements_to_strings :: "jsval list \<Rightarrow> js_error + string list" where
  "to_string JUndefined = Inr ''undefined''"
| "to_string JNull = Inr ''null''"
| "to_string (JBool b) = Inr (if b then ''true'' else ''false'')"
| "to_string (JNum n) = Inr (string_of_int n)"
| "to_string JNaN = Inr ''NaN''"
| "to_string (JStr s) = Inr s"
| "to_string (JArr xs) =
     (case elements_to_strings xs of Inl e \<Rightarrow> Inl e | Inr ss \<Rightarrow> Inr (join_comma ss))"
| "to_string (JObj kvs) =
     (if ''toString'' \<in> set (map fst kvs)
      then Inl (TypeError ''Cannot convert object to primitive value'')
      else Inr ''[object Object]'')"
| "to_string (JBuiltin k) =
     Inr (if k = ''__proto__'' then ''[object Object]''
          else ''function '' @ k @ ''() { [native code] }'')"
| "elements_to_strings [] = Inr []"
| "elements_to_strings (x # xs) =
     (case (if nullish x then Inr [] else to_string x) of
        Inl e \<Rightarrow> Inl e
      | Inr s \<Rightarrow> (case elements_to_strings xs of Inl e \<Rightarrow> Inl e | Inr ss \<Rightarrow> Inr (s # ss)))"


text \<open>\<open>String.prototype.toLowerCase\<close> on code units below 256: the letters \<open>A\<close> to \<open>Z\<close>
  and the Latin-1 capitals \<open>0xC0\<close> to \<open>0xDE\<close> (the multiplication sign \<open>0xD7\<close> apart) have
  a lower-case form, 32 code units up; every other code unit stays.\<close>

definition upper_case_chars :: "char list" where
  "upper_case_chars =
     ''ABCDEFGHIJKLMNOPQRSTUVWXYZ'' @
     [CHR 0xC0, CHR 0xC1, CHR 0xC2, CHR 0xC3, CHR 0xC4, CHR 0xC5, CHR 0xC6, CHR 0xC7,
      CHR 0xC8, CHR 0xC9, CHR 0xCA, CHR 0xCB, CHR 0xCC, CHR 0xCD, CHR 0xCE, CHR 0xCF,
      CHR 0xD0, CHR 0xD1, CHR 0xD2, CHR 0xD3, CHR 0xD4, CHR 0xD5, CHR 0xD6, CHR 0xD8,
      CHR 0xD9, CHR 0xDA, CHR 0xDB, CHR 0xDC, CHR 0xDD, CHR 0xDE]"

definition lower_case_chars :: "char list" where
  "lower_case_chars =
     ''abcdefghijklmnopqrstuvwxyz'' @
     [CHR 0xE0, CHR 0xE1, CHR 0xE2, CHR 0xE3, CHR 0xE4, CHR 0xE5, CHR 0xE6, CHR 0xE7,
      CHR 0xE8, CHR 0xE9, CHR 0xEA, CHR 0xEB, CHR 0xEC, CHR 0xED, CHR 0xEE, CHR 0xEF,
      CHR 0xF0, CHR 0xF1, CHR 0xF2, CHR 0xF3, CHR 0xF4, CHR 0xF5, CHR 0xF6, CHR 0xF8,
      CHR 0xF9, CHR 0xFA, CHR 0xFB, CHR 0xFC, CHR 0xFD, CHR 0xFE]"

definition lower_char :: "char \<Rightarrow> char" where
  "lower_char c =
     (case map_of (zip upper_case_chars lower_case_chars) c of Some l \<Rightarrow> l | None \<Rightarrow> c)"

definition toLowerCase :: "string \<Rightarrow> string" where
  "toLowerCase s = map lower_char s"

text \<open>\<open>String.prototype.trim\<close>: white space and line terminators below 256 are tab, line
  feed, vertical tab, form feed, carriage return, space and the no-break space \<open>0xA0\<close>.\<close>

definition is_whitespace :: "char \<Rightarrow> bool" where
  "is_whitespace c =
     (c \<in> set [CHR 0x09, CHR 0x0A, CHR 0x0B, CHR 0x0C, CHR 0x0D, CHR 0x20, CHR 0xA0])"

definition trim :: "string \<Rightarrow> string" where
  "trim s = rev (dropWhile is_whitespace (rev (dropWhile is_whitespace s)))"

text \<open>A method call \<open>v.toLowerCase()\<close> or \<open>v.trim()\<close>: only a string has the method. On any
  other value the property is \<open>undefined\<close> (or, for a parsed object with an own key of
  that name, a value that is not a function), and calling it throws.\<close>

fun call_toLowerCase :: "jsval \<Rightarrow> js_error + string" where
  "call_toLowerCase (JStr s) = Inr (toLowerCase s)"
| "call_toLowerCase v = Inl (TypeError ''toLowerCase is not a function'')"

fun call_trim :: "jsval \<Rightarrow> js_error + string" where
  "call_trim (JStr s) = Inr (trim s)"
| "call_trim v = Inl (TypeError ''trim is not a function'')"

text \<open>\<open>/^\d{n}$/.test(v)\<close>: the argument is converted with \<open>ToString\<close> first; \<open>\d\<close> is an
  ASCII digit, and without the \<open>m\<close> flag \<open>^\<close> and \<open>$\<close> are the ends of the string.\<close>

definition is_digit :: "char \<Rightarrow> bool" where
  "is_digit c = (c \<in> set ''0123456789'')"

definition all_digits :: "nat \<Rightarrow> string \<Rightarrow> bool" where
  "all_digits n s = (length s = n \<and> list_all is_digit s)"

definition test_digits :: "nat \<Rightarrow> jsval \<Rightarrow> js_error + bool" where
  "test_digits n v = (case to_string v of Inl e \<Rightarrow> Inl e | Inr s \<Rightarrow> Inr (all_digits n s))"

subsection \<open>Operators\<close>

text \<open>\<open>a === b\<close> for operands that come from two different sources (the request and the
  payment store, or the payment store and a constant): two primitives of the same type
  are compared by value, \<open>NaN\<close> equals nothing, and an array or object is never the same
  reference as a value parsed elsewhere.\<close>

fun strict_equals :: "jsval \<Rightarrow> jsval \<Rightarrow> bool" where
  "strict_equals JUndefined b = (b = JUndefined)"
| "strict_equals JNull b = (b = JNull)"
| "strict_equals (JBool x) b = (b = JBool x)"
| "strict_equals (JNum x) b = (b = JNum x)"
| "strict_equals (JStr x) b = (b = JStr x)"
| "strict_equals JNaN b = False"
| "strict_equals (JArr xs) b = False"
| "strict_equals (JObj kvs) b = False"
| "strict_equals (JBuiltin k) b = False"

text \<open>\<open>ToPrimitive\<close> without a hint: \<open>valueOf\<close> of an array or a parsed object returns the
  object itself (or is not callable), so the result is that of \<open>toString\<close>.\<close>

fun to_primitive :: "jsval \<Rightarrow> js_error + jsval" where
  "to_primitive (JArr xs) =
     (case to_string (JArr xs) of Inl e \<Rightarrow> Inl e | Inr s \<Rightarrow> Inr (JStr s))"
| "to_primitive (JObj kvs) =
     (case to_string (JObj kvs) of Inl e \<Rightarrow> Inl e | Inr s \<Rightarrow> Inr (JStr s))"
| "to_primitive (JBuiltin k) =
     (case to_string (JBuiltin k) of Inl e \<Rightarrow> Inl e | Inr s \<Rightarrow> Inr (JStr s))"
| "to_primitive v = Inr v"

text \<open>\<open>ToNumber\<close> of a primitive that is not a string; \<open>None\<close> is \<open>NaN\<close>.\<close>

fun to_number :: "jsval \<Rightarrow> int option" where
  "to_number JNull = Some 0"
| "to_number (JBool b) = Some (if b then 1 else 0)"
| "to_number (JNum n) = Some n"
| "to_number v = None"

fun is_string :: "jsval \<Rightarrow> bool" where
  "is_string (JStr s) = True"
| "is_string v = False"

text \<open>\<open>a + b\<close>: both operands are made primitive; if either is then a string the result is
  the concatenation of their strings, otherwise the sum of their numbers.\<close>

definition js_add :: "jsval \<Rightarrow> jsval \<Rightarrow> js_error + jsval" where
  "js_add a b =
     (case to_primitive a of
        Inl e \<Rightarrow> Inl e
      | Inr pa \<Rightarrow>
          (case to_primitive b of
             Inl e \<Rightarrow> Inl e
           | Inr pb \<Rightarrow>
               if is_string pa \<or> is_string pb then
                 (case to_string pa of
                    Inl e \<Rightarrow> Inl e
                  | Inr sa \<Rightarrow>
                      (case to_string pb of Inl e \<Rightarrow> Inl e | Inr sb \<Rightarrow> Inr (JStr (sa @ sb))))
               else
                 (case (to_number pa, to_number pb) of
                    (Some x, Some y) \<Rightarrow> Inr (JNum (x + y))
                  | _ \<Rightarrow> Inr JNaN)))"


section \<open>Configuration\<close>

definition PAYMENT_DB_URL :: string where
  "PAYMENT_DB_URL = ''https://warisha.pw/payments''"

definition BOARD_API_BASE_URL :: string where
  "BOARD_API_BASE_URL = ''https://boardresultapi.abplive.com/wb/2025/12''"

text \<open>The referral table is an object literal: its own properties are the three entries,
  and it inherits from \<open>Object.prototype\<close> like every object (see \<open>object_get\<close>).\<close>

definition referralButtonMap :: "(string \<times> jsval) list" where
  "referralButtonMap =
     [(''subhra'', JStr ''pl_QRCx74QvShiAil''),
      (''koyel'', JStr ''pl_QMWdxwIPVZYTpi''),
      (''anwesha'', JStr ''pl_QRfw57xno82GiV'')]"

definition defaultRazorpayButtonId :: jsval where
  "defaultRazorpayButtonId = JStr ''pl_QMXOuva67vyoan''"

definition corsHeaders :: "(string \<times> string) list" where
  "corsHeaders =
     [(''Access-Control-Allow-Origin'', ''*''),
      (''Access-Control-Allow-Methods'', ''POST, OPTIONS''),
      (''Access-Control-Allow-Headers'', ''Content-Type'')]"

section \<open>Requests, responses and the two upstream services\<close>

text \<open>What the handler sees of a request: the method, the path of the URL and the outcome
  of \<open>request.json()\<close> (\<open>None\<close> when the body is not JSON and the promise rejects).\<close>

record request =
  req_method :: string
  req_pathname :: string
  req_json :: "jsval option"

text \<open>A response of the handler. The body is the value handed to \<open>JSON.stringify\<close>, or
  \<open>None\<close> for the \<open>null\<close> body; serialising leaves out an object property whose value is
  \<open>undefined\<close> or a function.\<close>

record response =
  status :: nat
  headers :: "(string \<times> string) list"
  body :: "jsval option"

text \<open>What \<open>fetch\<close> gives: the promise rejects (network failure), or it resolves to a
  response of which the handler reads \<open>status\<close>, \<open>statusText\<close>, \<open>ok\<close> and \<open>json()\<close>
  (\<open>None\<close> when the body is not JSON).\<close>

record upstream =
  up_status :: nat
  up_statusText :: string
  up_json :: "jsval option"

datatype fetch_outcome = Rejected | Resolved upstream

definition ok :: "upstream \<Rightarrow> bool" where
  "ok up = (200 \<le> up_status up \<and> up_status up \<le> 299)"

text \<open>An outbound call is its URL and request headers; the environment answers each call.
  A run of a flow gives what it returns or throws, and the calls it made, in order.\<close>

type_synonym call = "string \<times> (string \<times> string) list"

type_synonym env = "call \<Rightarrow> fetch_outcome"

type_synonym flow_result = "(js_error + response) \<times> call list"

text \<open>\<open>new Response(JSON.stringify(v), { status: st, headers: { ...corsHeaders,
  'Content-Type': 'application/json' } })\<close> with a status written in the source (400, 403,
  404, 405, 500, 502, 503 or 200): the constructor accepts it.\<close>

definition json_response :: "nat \<Rightarrow> jsval \<Rightarrow> response" where
  "json_response st v =
     \<lparr>status = st, headers = corsHeaders @ [(''Content-Type'', ''application/json'')],
      body = Some v\<rparr>"

text \<open>The same constructor with a status taken from an upstream response. The Fetch
  standard has it throw a \<open>RangeError\<close> for a status outside 200 to 599, and a \<open>TypeError\<close>
  for a body that is not \<open>null\<close> with a null-body status (101, 103, 204, 205, 304).\<close>

definition new_Response :: "nat \<Rightarrow> jsval \<Rightarrow> js_error + response" where
  "new_Response st v =
     (if st < 200 \<or> 599 < st then Inl (RangeError ''init status must be in the range 200 to 599'')
      else if st \<in> set [101, 103, 204, 205, 304]
      then Inl (TypeError ''Response with null body status cannot have body'')
      else Inr (json_response st v))"

definition message :: "string \<Rightarrow> jsval" where
  "message m = JObj [(''message'', JStr m)]"

section \<open>Shared steps of the two flows\<close>

text \<open>The condition of the validation \<open>if\<close> from \<open>!roll\<close> on (both flows): \<open>Inr True\<close> when
  the request is rejected. \<open>||\<close> evaluates left to right and stops at the first true
  operand; the regular expression tests convert their argument and may throw.\<close>

definition invalid_fields :: "jsval \<Rightarrow> jsval \<Rightarrow> jsval \<Rightarrow> js_error + bool" where
  "invalid_fields roll no registration =
     (if truthy roll \<and> truthy no \<and> truthy registration then
        (case test_digits 6 roll of
           Inl e \<Rightarrow> Inl e
         | Inr False \<Rightarrow> Inr True
         | Inr True \<Rightarrow>
             (case test_digits 4 no of
                Inl e \<Rightarrow> Inl e
              | Inr False \<Rightarrow> Inr True
              | Inr True \<Rightarrow>
                  if typeof registration = ''string''
                  then (case call_trim registration of Inl e \<Rightarrow> Inl e | Inr t \<Rightarrow> Inr (t = []))
                  else Inr True))
      else Inr True)"

text \<open>\<open>fullRoll = roll + no\<close> and the template literal of the URL.\<close>

definition apiUrl :: "jsval \<Rightarrow> jsval \<Rightarrow> jsval \<Rightarrow> js_error + string" where
  "apiUrl roll no registration =
     (case js_add roll no of
        Inl e \<Rightarrow> Inl e
      | Inr fullRoll \<Rightarrow>
          (case to_string fullRoll of
             Inl e \<Rightarrow> Inl e
           | Inr fr \<Rightarrow>
               (case call_trim registration of
                  Inl e \<Rightarrow> Inl e
                | Inr reg \<Rightarrow> Inr (BOARD_API_BASE_URL @ ''/'' @ fr @ ''/'' @ reg))))"

text \<open>The message of a non-success upstream response: \<open>errorJson.message || errorText\<close>
  inside a \<open>try\<close> whose \<open>catch\<close> keeps the default, so a body that is not JSON and a body
  \<open>null\<close> (reading \<open>message\<close> throws) both keep it.\<close>

definition errorText :: "upstream \<Rightarrow> jsval" where
  "errorText up =
     (let dflt = JStr (''API Error ('' @ string_of_nat (up_status up) @ ''): '' @ up_statusText up)
      in case up_json up of
           None \<Rightarrow> dflt
         | Some errorJson \<Rightarrow>
             (case get_prop errorJson ''message'' of
                Inl e \<Rightarrow> dflt
              | Inr m \<Rightarrow> if truthy m then m else dflt))"


section \<open>The details flow\<close>

text \<open>Lines 83 to 86: the button id starts as the default and is replaced when the referral
  key is truthy and the table answers its lower-case form with a truthy value.\<close>

definition paymentButtonIdToUse :: "jsval \<Rightarrow> js_error + jsval" where
  "paymentButtonIdToUse referralKey =
     (if truthy referralKey then
        (case call_toLowerCase referralKey of
           Inl e \<Rightarrow> Inl e
         | Inr k \<Rightarrow>
             if truthy (object_get referralButtonMap k)
             then Inr (object_get referralButtonMap k)
             else Inr defaultRazorpayButtonId)
      else Inr defaultRazorpayButtonId)"

text \<open>The \<open>try\<close> block around the call of the result API (lines 92 to 128), given what
  \<open>fetch\<close> gave. Whatever is thrown inside (the rejected fetch, a success body that is not
  JSON, reading a field of \<open>null\<close>, the \<open>Response\<close> constructor refusing the upstream
  status) ends in the 502 of the \<open>catch\<close>.\<close>

definition details_payload :: "jsval \<Rightarrow> jsval \<Rightarrow> js_error + jsval" where
  "details_payload data button =
     (case get_prop data ''name'' of
        Inl e \<Rightarrow> Inl e
      | Inr name \<Rightarrow>
          Inr (JObj [(''name'', name),
                     (''rollNo'', read_prop data ''ROll_No''),
                     (''regNo'', read_prop data ''Reg_No''),
                     (''paymentButtonId'', button)]))"

definition details_fetched :: "fetch_outcome \<Rightarrow> jsval \<Rightarrow> response" where
  "details_fetched fetched button =
     (let failed = json_response 502 (message ''Failed to connect to the results service.'')
      in case fetched of
           Rejected \<Rightarrow> failed
         | Resolved apiResponse \<Rightarrow>
             if ok apiResponse then
               (case up_json apiResponse of
                  None \<Rightarrow> failed
                | Some data \<Rightarrow>
                    (case details_payload data button of
                       Inl e \<Rightarrow> failed
                     | Inr responsePayload \<Rightarrow> json_response 200 responsePayload))
             else
               (case new_Response (up_status apiResponse)
                       (JObj [(''message'', errorText apiResponse)]) of
                  Inl e \<Rightarrow> failed
                | Inr r \<Rightarrow> r))"

definition handleDetailsRequest :: "env \<Rightarrow> jsval option \<Rightarrow> flow_result" where
  "handleDetailsRequest fetch parsed =
     (case parsed of
        None \<Rightarrow> (Inr (json_response 400 (message ''Invalid JSON body'')), [])
      | Some requestData \<Rightarrow>
          (case get_prop requestData ''roll'' of
             Inl e \<Rightarrow> (Inl e, [])
           | Inr roll \<Rightarrow>
               (let no = read_prop requestData ''no'';
                    registration = read_prop requestData ''registration'';
                    referralKey = read_prop requestData ''referralKey''
                in case invalid_fields roll no registration of
                     Inl e \<Rightarrow> (Inl e, [])
                   | Inr True \<Rightarrow>
                       (Inr (json_response 400 (message
                          ''Invalid Roll, No, or Registration Number format. All fields are required.'')),
                        [])
                   | Inr False \<Rightarrow>
                       (case paymentButtonIdToUse referralKey of
                          Inl e \<Rightarrow> (Inl e, [])
                        | Inr button \<Rightarrow>
                            (case apiUrl roll no registration of
                               Inl e \<Rightarrow> (Inl e, [])
                             | Inr url \<Rightarrow>
                                 (Inr (details_fetched (fetch (url, [])) button),
                                  [(url, [])]))))))"

section \<open>The full-result flow\<close>

text \<open>One operand of the identifier test: \<open>v && v.toLowerCase() === normalizedIdentifier\<close>.\<close>

definition lowered_equals :: "jsval \<Rightarrow> string \<Rightarrow> js_error + bool" where
  "lowered_equals v normalizedIdentifier =
     (if truthy v then
        (case call_toLowerCase v of
           Inl e \<Rightarrow> Inl e
         | Inr l \<Rightarrow> Inr (l = normalizedIdentifier))
      else Inr False)"

text \<open>The callback of \<open>paymentData.some\<close> (lines 172 to 180) on one record. \<open>&&\<close> and \<open>||\<close>
  stop early, so the identifier fields are read only when roll and serial match.\<close>

definition record_matches :: "jsval \<Rightarrow> jsval \<Rightarrow> jsval \<Rightarrow> string \<Rightarrow> jsval \<Rightarrow> js_error + bool" where
  "record_matches roll no identifier normalizedIdentifier record =
     (case get_prop record ''roll'' of
        Inl e \<Rightarrow> Inl e
      | Inr record_roll \<Rightarrow>
          if strict_equals record_roll roll \<and> strict_equals (read_prop record ''no'') no then
            (case lowered_equals (read_prop record ''payment_id'') normalizedIdentifier of
               Inl e \<Rightarrow> Inl e
             | Inr True \<Rightarrow> Inr True
             | Inr False \<Rightarrow>
                 (case lowered_equals (read_prop record ''email'') normalizedIdentifier of
                    Inl e \<Rightarrow> Inl e
                  | Inr True \<Rightarrow> Inr True
                  | Inr False \<Rightarrow>
                      Inr (truthy (read_prop record ''phone'') \<and>
                           strict_equals (read_prop record ''phone'') identifier)))
          else Inr False)"

text \<open>\<open>Array.prototype.some\<close>: the records in order, until the callback answers true or
  throws.\<close>

fun some_record :: "jsval \<Rightarrow> jsval \<Rightarrow> jsval \<Rightarrow> string \<Rightarrow> jsval list \<Rightarrow> js_error + bool" where
  "some_record roll no identifier normalizedIdentifier [] = Inr False"
| "some_record roll no identifier normalizedIdentifier (record # records) =
     (case record_matches roll no identifier normalizedIdentifier record of
        Inl e \<Rightarrow> Inl e
      | Inr True \<Rightarrow> Inr True
      | Inr False \<Rightarrow> some_record roll no identifier normalizedIdentifier records)"

definition paymentDbCall :: call where
  "paymentDbCall =
     (PAYMENT_DB_URL,
      [(''Cache-Control'', ''no-cache, no-store, must-revalidate''),
       (''Pragma'', ''no-cache''),
       (''Expires'', ''0'')])"

text \<open>Step 1, the \<open>try\<close> block of lines 150 to 189, given what the fetch of the payment
  store gave: \<open>Some r\<close> is the response the flow returns at once, \<open>None\<close> is verification
  passed. Whatever is thrown inside ends in the 500 of the \<open>catch\<close>.\<close>

definition verifyPayment :: "fetch_outcome \<Rightarrow> jsval \<Rightarrow> jsval \<Rightarrow> jsval \<Rightarrow> response option" where
  "verifyPayment fetched identifier roll no =
     (let failed = json_response 500 (message ''Error during payment verification.'')
      in case fetched of
           Rejected \<Rightarrow> Some failed
         | Resolved paymentDbResponse \<Rightarrow>
             if ok paymentDbResponse then
               (case up_json paymentDbResponse of
                  None \<Rightarrow> Some failed
                | Some (JArr paymentData) \<Rightarrow>
                    (case call_toLowerCase identifier of
                       Inl e \<Rightarrow> Some failed
                     | Inr normalizedIdentifier \<Rightarrow>
                         (case some_record roll no identifier normalizedIdentifier paymentData of
                            Inl e \<Rightarrow> Some failed
                          | Inr True \<Rightarrow> None
                          | Inr False \<Rightarrow>
                              Some (json_response 403 (message
                                ''Verification failed. Payment not found or details mismatch.''))))
                | Some other \<Rightarrow> Some (json_response 500 (message ''Payment data format error.'')))
             else Some (json_response 503 (message
                    ''Could not verify details at this time (DB Error).'')))"

text \<open>Step 2, the \<open>try\<close> block of lines 196 to 229, given what the fetch of the result API
  gave.\<close>

definition full_result_fetched :: "fetch_outcome \<Rightarrow> response" where
  "full_result_fetched fetched =
     (let failed = json_response 502 (message
            ''Failed to connect to the results service for full details.'')
      in case fetched of
           Rejected \<Rightarrow> failed
         | Resolved apiResponse \<Rightarrow>
             if ok apiResponse then
               (case up_json apiResponse of
                  None \<Rightarrow> failed
                | Some resultData \<Rightarrow> json_response 200 resultData)
             else
               (let text1 = errorText apiResponse;
                    text2 = (if up_status apiResponse = 404 then JStr
                      ''Result found (payment verified), but could not retrieve full details with the provided Roll, No, and Registration Number. Please check these details or contact support.''
                             else text1)
                in case new_Response (if up_status apiResponse = 404 then 500
                                     else up_status apiResponse)
                          (JObj [(''message'', text2)]) of
                     Inl e \<Rightarrow> failed
                   | Inr r \<Rightarrow> r))"

definition handleFullResultRequest :: "env \<Rightarrow> jsval option \<Rightarrow> flow_result" where
  "handleFullResultRequest fetch parsed =
     (case parsed of
        None \<Rightarrow> (Inr (json_response 400 (message ''Invalid JSON body'')), [])
      | Some requestData \<Rightarrow>
          (case get_prop requestData ''identifier'' of
             Inl e \<Rightarrow> (Inl e, [])
           | Inr identifier \<Rightarrow>
               (let roll = read_prop requestData ''roll'';
                    no = read_prop requestData ''no'';
                    registration = read_prop requestData ''registration''
                in case (if truthy identifier then invalid_fields roll no registration
                         else Inr True) of
                     Inl e \<Rightarrow> (Inl e, [])
                   | Inr True \<Rightarrow>
                       (Inr (json_response 400 (message
                          ''Invalid Identifier (Payment ID/Email/Phone), Roll, No, or Registration Number format. All fields are required.'')),
                        [])
                   | Inr False \<Rightarrow>
                       (case verifyPayment (fetch paymentDbCall) identifier roll no of
                          Some r \<Rightarrow> (Inr r, [paymentDbCall])
                        | None \<Rightarrow>
                            (case apiUrl roll no registration of
                               Inl e \<Rightarrow> (Inl e, [paymentDbCall])
                             | Inr url \<Rightarrow>
                                 (Inr (full_result_fetched (fetch (url, []))),
                                  [paymentDbCall, (url, [])]))))))"

section \<open>The router\<close>

text \<open>\<open>onRequest\<close>: the response and the outbound calls made. What a flow throws is caught
  here; every thrown value of the model is an \<open>Error\<close>, so the 500 carries its message.\<close>

definition onRequest :: "env \<Rightarrow> request \<Rightarrow> response \<times> call list" where
  "onRequest fetch req =
     (if req_method req = ''OPTIONS'' then
        (\<lparr>status = 200, headers = corsHeaders, body = None\<rparr>, [])
      else if req_method req \<noteq> ''POST'' then
        (json_response 405 (message ''Method Not Allowed''), [])
      else
        (case (if req_pathname req = ''/api/details''
               then handleDetailsRequest fetch (req_json req)
               else if req_pathname req = ''/api/full-result''
               then handleFullResultRequest fetch (req_json req)
               else (Inr (json_response 404 (message ''Not Found'')), [])) of
           (Inr r, calls) \<Rightarrow> (r, calls)
         | (Inl error, calls) \<Rightarrow> (json_response 500 (message (error_message error)), calls)))"


section \<open>Notions used by the properties\<close>

text \<open>A parsed request body passes validation when the destructuring does not throw and
  the condition of the validation \<open>if\<close> is false.\<close>

definition passes_details_validation :: "jsval \<Rightarrow> bool" where
  "passes_details_validation requestData =
     (\<not> nullish requestData \<and>
      invalid_fields (read_prop requestData ''roll'') (read_prop requestData ''no'')
        (read_prop requestData ''registration'') = Inr False)"

definition passes_full_validation :: "jsval \<Rightarrow> bool" where
  "passes_full_validation requestData =
     (passes_details_validation requestData \<and> truthy (read_prop requestData ''identifier''))"

fun is_array :: "jsval \<Rightarrow> bool" where
  "is_array (JArr xs) = True"
| "is_array v = False"


text \<open>The match of a payment record as the specification words it: roll and serial exactly
  equal to the request's, and the payment id or the email equal to the identifier without
  regard to case, or the phone equal to it exactly.\<close>

definition equals_ignoring_case :: "jsval \<Rightarrow> jsval \<Rightarrow> bool" where
  "equals_ignoring_case a b =
     (case (a, b) of (JStr x, JStr y) \<Rightarrow> toLowerCase x = toLowerCase y | _ \<Rightarrow> False)"

definition spec_record_matches :: "jsval \<Rightarrow> jsval \<Rightarrow> jsval \<Rightarrow> jsval \<Rightarrow> bool" where
  "spec_record_matches roll no identifier record =
     (read_prop record ''roll'' = roll \<and> read_prop record ''no'' = no \<and>
      (equals_ignoring_case (read_prop record ''payment_id'') identifier \<or>
       equals_ignoring_case (read_prop record ''email'') identifier \<or>
       read_prop record ''phone'' = identifier))"

text \<open>A record on which the scan cannot throw: it is not \<open>null\<close>, and its payment id and
  email are strings, or falsy (absent, \<open>null\<close>, \<open>false\<close>, \<open>0\<close>).\<close>

definition string_or_falsy :: "jsval \<Rightarrow> bool" where
  "string_or_falsy v = (is_string v \<or> \<not> truthy v)"

definition well_formed_record :: "jsval \<Rightarrow> bool" where
  "well_formed_record record =
     (\<not> nullish record \<and> string_or_falsy (read_prop record ''payment_id'') \<and>
      string_or_falsy (read_prop record ''email''))"

text \<open>The outcome of payment verification as a run of the full-result flow shows it: the
  flow ended after the call of the payment store alone, with that response or error
  (\<open>Some\<close>), or it went on (\<open>None\<close>: verification passed).\<close>

definition verification_outcome :: "flow_result \<Rightarrow> (js_error + response) option" where
  "verification_outcome run = (if snd run = [paymentDbCall] then Some (fst run) else None)"

section \<open>Sample inputs\<close>

text \<open>Concrete requests, records and upstream answers on which the properties below are
  run.\<close>

definition two_services :: "fetch_outcome \<Rightarrow> fetch_outcome \<Rightarrow> env" where
  "two_services db api c = (if c = paymentDbCall then db else api)"

definition json_ok :: "jsval \<Rightarrow> fetch_outcome" where
  "json_ok v = Resolved \<lparr>up_status = 200, up_statusText = ''OK'', up_json = Some v\<rparr>"

definition sample_record :: jsval where
  "sample_record =
     JObj [(''roll'', JStr ''123456''), (''no'', JStr ''1234''),
           (''payment_id'', JStr ''pay_QX12ab''), (''email'', JStr ''test@x.com''),
           (''phone'', JStr ''9876543210'')]"

definition sample_full_body :: jsval where
  "sample_full_body =
     JObj [(''identifier'', JStr ''Test@X.com''), (''roll'', JStr ''123456''),
           (''no'', JStr ''1234''), (''registration'', JStr '' REG1 '')]"

definition sample_details_body :: jsval where
  "sample_details_body =
     JObj [(''roll'', JStr ''123456''), (''no'', JStr ''1234''),
           (''registration'', JStr ''REG1''), (''referralKey'', JStr ''Koyel'')]"

definition sample_url :: string where
  "sample_url = ''https://boardresultapi.abplive.com/wb/2025/12/1234561234/REG1''"

definition full_request :: "jsval \<Rightarrow> request" where
  "full_request v =
     \<lparr>req_method = ''POST'', req_pathname = ''/api/full-result'', req_json = Some v\<rparr>"

definition details_request :: "jsval \<Rightarrow> request" where
  "details_request v =
     \<lparr>req_method = ''POST'', req_pathname = ''/api/details'', req_json = Some v\<rparr>"

section \<open>Evaluation and basic facts\<close>

lemmas string_eval =
  toLowerCase_def lower_char_def upper_case_chars_def lower_case_chars_def
  trim_def is_whitespace_def all_digits_def is_digit_def test_digits_def
  string_of_int_def string_of_nat.simps digit_char_def

lemmas value_eval =
  get_prop_def object_get_def object_prototype_keys_def js_add_def

lemmas flow_eval =
  invalid_fields_def apiUrl_def errorText_def paymentButtonIdToUse_def details_payload_def
  details_fetched_def handleDetailsRequest_def lowered_equals_def record_matches_def
  verifyPayment_def full_result_fetched_def handleFullResultRequest_def onRequest_def
  json_response_def new_Response_def message_def ok_def paymentDbCall_def
  PAYMENT_DB_URL_def BOARD_API_BASE_URL_def referralButtonMap_def
  defaultRazorpayButtonId_def corsHeaders_def

lemmas notion_eval =
  passes_details_validation_def passes_full_validation_def equals_ignoring_case_def
  spec_record_matches_def string_or_falsy_def well_formed_record_def
  verification_outcome_def

lemmas sample_eval =
  two_services_def json_ok_def sample_record_def sample_full_body_def
  sample_details_body_def sample_url_def full_request_def details_request_def

lemma all_digits_nonempty: "all_digits (Suc k) s \<Longrightarrow> s \<noteq> []"
  by (auto simp: all_digits_def)

lemma trim_Nil: "trim [] = []"
  by (simp add: trim_def)

text \<open>On three strings the validation is the three tests of the specification.\<close>

lemma invalid_fields_strings:
  "invalid_fields (JStr r) (JStr n) (JStr g) =
     Inr (\<not> (all_digits 6 r \<and> all_digits 4 n \<and> trim g \<noteq> []))"
proof -
  have r: "all_digits 6 r \<Longrightarrow> r \<noteq> []" and n: "all_digits 4 n \<Longrightarrow> n \<noteq> []"
    using all_digits_nonempty [of 5 r] all_digits_nonempty [of 3 n]
    by (simp_all add: eval_nat_numeral)
  have g: "trim g \<noteq> [] \<Longrightarrow> g \<noteq> []"
    using trim_Nil by auto
  show ?thesis
    using r n g
    by (cases "all_digits 6 r"; cases "all_digits 4 n"; cases "trim g = []")
       (auto simp: invalid_fields_def test_digits_def)
qed

text \<open>What an accepted request looks like: roll and serial convert to six and four digits,
  the registration is a string with something left after trimming.\<close>

lemma valid_fields_shape:
  assumes "invalid_fields roll no registration = Inr False"
  shows "(\<exists>s. to_string roll = Inr s \<and> all_digits 6 s) \<and>
         (\<exists>t. to_string no = Inr t \<and> all_digits 4 t) \<and>
         (\<exists>g. registration = JStr g \<and> trim g \<noteq> [])"
  using assms
  by (cases registration)
     (auto simp: invalid_fields_def test_digits_def split: if_splits sum.splits bool.splits)

lemma to_primitive_ok:
  "to_string v = Inr s \<Longrightarrow> \<exists>p t. to_primitive v = Inr p \<and> to_string p = Inr t"
  by (cases v) (auto split: sum.splits)

lemma js_add_ok:
  assumes "to_string a = Inr s" and "to_string b = Inr t"
  shows "\<exists>r u. js_add a b = Inr r \<and> to_string r = Inr u"
proof -
  obtain pa sa where pa: "to_primitive a = Inr pa" "to_string pa = Inr sa"
    using to_primitive_ok [OF assms(1)] by blast
  obtain pb sb where pb: "to_primitive b = Inr pb" "to_string pb = Inr sb"
    using to_primitive_ok [OF assms(2)] by blast
  show ?thesis
    using pa pb by (auto simp: js_add_def split: option.splits)
qed

text \<open>After validation the URL is always built: nothing of step 2 throws before the
  fetch.\<close>

lemma apiUrl_valid:
  assumes "invalid_fields roll no registration = Inr False"
  shows "\<exists>url. apiUrl roll no registration = Inr url"
proof -
  from valid_fields_shape [OF assms] obtain s t g where
    "to_string roll = Inr s" "to_string no = Inr t" "registration = JStr g"
    by blast
  moreover from js_add_ok [OF this(1) this(2)] obtain r u where
    "js_add roll no = Inr r" "to_string r = Inr u" by blast
  ultimately show ?thesis by (simp add: apiUrl_def)
qed


section \<open>The flows on an accepted request\<close>

text \<open>Through the router a \<open>POST\<close> to one of the two paths is the flow, its thrown error
  turned into the 500 of the router's \<open>catch\<close>.\<close>

lemma full_request_routed:
  "onRequest fetch (full_request requestData) =
     (case handleFullResultRequest fetch (Some requestData) of
        (Inr r, calls) \<Rightarrow> (r, calls)
      | (Inl e, calls) \<Rightarrow> (json_response 500 (message (error_message e)), calls))"
  by (simp add: onRequest_def full_request_def)

lemma details_request_routed:
  "onRequest fetch (details_request requestData) =
     (case handleDetailsRequest fetch (Some requestData) of
        (Inr r, calls) \<Rightarrow> (r, calls)
      | (Inl e, calls) \<Rightarrow> (json_response 500 (message (error_message e)), calls))"
  by (simp add: onRequest_def details_request_def)

text \<open>An accepted full-result request calls the payment store; it stops there with the
  response of step 1, or goes on to call the result API at the URL built from its fields.\<close>

lemma passes_full_run:
  assumes "passes_full_validation requestData"
  shows "\<exists>url. apiUrl (read_prop requestData ''roll'') (read_prop requestData ''no'')
                 (read_prop requestData ''registration'') = Inr url \<and>
           handleFullResultRequest fetch (Some requestData) =
             (case verifyPayment (fetch paymentDbCall) (read_prop requestData ''identifier'')
                     (read_prop requestData ''roll'') (read_prop requestData ''no'') of
                Some r \<Rightarrow> (Inr r, [paymentDbCall])
              | None \<Rightarrow> (Inr (full_result_fetched (fetch (url, []))), [paymentDbCall, (url, [])]))"
proof -
  from assms have v: "invalid_fields (read_prop requestData ''roll'') (read_prop requestData ''no'')
        (read_prop requestData ''registration'') = Inr False"
    and n: "\<not> nullish requestData" and t: "truthy (read_prop requestData ''identifier'')"
    by (simp_all add: passes_full_validation_def passes_details_validation_def)
  from apiUrl_valid [OF v] obtain url where
    "apiUrl (read_prop requestData ''roll'') (read_prop requestData ''no'')
       (read_prop requestData ''registration'') = Inr url" ..
  with v n t show ?thesis
    by (simp add: handleFullResultRequest_def get_prop_def Let_def split: option.splits)
qed

lemma verification_outcome_run:
  assumes "passes_full_validation requestData"
  shows "verification_outcome (handleFullResultRequest fetch (Some requestData)) =
           map_option Inr
             (verifyPayment (fetch paymentDbCall) (read_prop requestData ''identifier'')
                (read_prop requestData ''roll'') (read_prop requestData ''no''))"
  using passes_full_run [OF assms, of fetch]
  by (auto simp: verification_outcome_def split: option.splits)

lemma paymentButtonIdToUse_string_or_falsy:
  assumes "string_or_falsy referralKey"
  shows "\<exists>button. paymentButtonIdToUse referralKey = Inr button"
  using assms
  by (cases referralKey) (auto simp: string_or_falsy_def paymentButtonIdToUse_def)

section \<open>Payment verification (C1)\<close>








section \<open>Validation (C2)\<close>

text \<open>Where validation does what the specification says: when reading the fields and
  converting roll and serial throw nothing, a request that fails one of the three tests is
  answered 400 and no call is made, in both flows.\<close>

lemma invalid_fields_rejects:
  assumes "to_string roll = Inr s" and "to_string no = Inr t"
    and "\<not> (all_digits 6 s \<and> all_digits 4 t \<and> is_string registration \<and>
            call_trim registration \<noteq> Inr [])"
  shows "invalid_fields roll no registration = Inr True"
  using assms
  by (cases registration; cases "all_digits 6 s"; cases "all_digits 4 t")
     (auto simp: invalid_fields_def test_digits_def)

lemma details_rejects_invalid:
  assumes "\<not> nullish requestData"
    and "invalid_fields (read_prop requestData ''roll'') (read_prop requestData ''no'')
           (read_prop requestData ''registration'') = Inr True"
  shows "onRequest fetch (details_request requestData) =
           (json_response 400 (message
              ''Invalid Roll, No, or Registration Number format. All fields are required.''), [])"
  using assms
  by (simp add: onRequest_def details_request_def handleDetailsRequest_def get_prop_def)

lemma full_rejects_invalid:
  assumes "\<not> nullish requestData"
    and "\<not> truthy (read_prop requestData ''identifier'') \<or>
         invalid_fields (read_prop requestData ''roll'') (read_prop requestData ''no'')
           (read_prop requestData ''registration'') = Inr True"
  shows "onRequest fetch (full_request requestData) =
           (json_response 400 (message
              ''Invalid Identifier (Payment ID/Email/Phone), Roll, No, or Registration Number format. All fields are required.''), [])"
  using assms
  by (cases "truthy (read_prop requestData ''identifier'')")
     (auto simp: onRequest_def full_request_def handleFullResultRequest_def get_prop_def Let_def)

text \<open>C2: every request whose body parses as JSON and whose roll, serial or registration
  fails its test is answered 400. The code does not do so for the JSON body \<open>null\<close>:
  destructuring it throws before validation runs, in both flows, and the router answers
  500. The same happens when roll is an object with an own \<open>toString\<close> key: the regular
  expression test throws while converting it.\<close>

theorem C2_null_body_answers_500:
  "status (fst (onRequest fetch (details_request JNull))) = 500 \<and>
   snd (onRequest fetch (details_request JNull)) = [] \<and>
   status (fst (onRequest fetch (full_request JNull))) = 500 \<and>
   snd (onRequest fetch (full_request JNull)) = [] \<and>
   status (fst (onRequest fetch (details_request
      (JObj [(''roll'', JObj [(''toString'', JNum 1)]), (''no'', JStr ''1234''),
             (''registration'', JStr ''REG1'')])))) = 500"
  by (simp add: sample_eval string_eval value_eval flow_eval)

section \<open>The status of a failed result lookup (C3)\<close>

text \<open>Where the full-result flow passes the upstream status on: a non-success status
  that the \<open>Response\<close> constructor accepts is returned, 404 apart, which becomes 500 with
  the fixed text.\<close>

lemma full_result_fetched_status:
  assumes "\<not> ok up" and "200 \<le> up_status up" and "up_status up \<le> 599"
    and "up_status up \<noteq> 304"
  shows "full_result_fetched (Resolved up) =
           (if up_status up = 404
            then json_response 500 (message
              ''Result found (payment verified), but could not retrieve full details with the provided Roll, No, and Registration Number. Please check these details or contact support.'')
            else json_response (up_status up) (JObj [(''message'', errorText up)]))"
  using assms
  by (auto simp: full_result_fetched_def new_Response_def ok_def message_def Let_def)

lemma full_result_fetched_refused:
  assumes "up_status up < 200 \<or> 599 < up_status up \<or> up_status up = 304"
  shows "full_result_fetched (Resolved up) =
           json_response 502 (message
             ''Failed to connect to the results service for full details.'')"
  using assms
  by (auto simp: full_result_fetched_def new_Response_def ok_def Let_def)

text \<open>C3 as stated fails: verification has succeeded (the result API is called) and the
  result API answers with the non-success status 304, or 999, yet the client does not get
  that status. No response with a body can be built with either (the \<open>Response\<close>
  constructor refuses a null-body status and a status outside 200 to 599), the constructor
  throws inside the \<open>try\<close> of step 2, and the flow answers the 502 of its \<open>catch\<close>.\<close>

theorem C3_refused_status_answers_502:
  "passes_full_validation sample_full_body \<and>
   \<not> ok \<lparr>up_status = 304, up_statusText = ''Not Modified'', up_json = None\<rparr> \<and>
   status (fst (onRequest
     (two_services (json_ok (JArr [sample_record]))
        (Resolved \<lparr>up_status = 304, up_statusText = ''Not Modified'', up_json = None\<rparr>))
     (full_request sample_full_body))) = 502 \<and>
   snd (onRequest
     (two_services (json_ok (JArr [sample_record]))
        (Resolved \<lparr>up_status = 304, up_statusText = ''Not Modified'', up_json = None\<rparr>))
     (full_request sample_full_body)) = [paymentDbCall, (sample_url, [])] \<and>
   \<not> ok \<lparr>up_status = 999, up_statusText = ''Request denied'', up_json = None\<rparr> \<and>
   status (fst (onRequest
     (two_services (json_ok (JArr [sample_record]))
        (Resolved \<lparr>up_status = 999, up_statusText = ''Request denied'', up_json = None\<rparr>))
     (full_request sample_full_body))) = 502 \<and>
   snd (onRequest
     (two_services (json_ok (JArr [sample_record]))
        (Resolved \<lparr>up_status = 999, up_statusText = ''Request denied'', up_json = None\<rparr>))
     (full_request sample_full_body)) = [paymentDbCall, (sample_url, [])]"
  by (simp add: notion_eval sample_eval string_eval value_eval flow_eval)

text \<open>C3, amended: in the full-result flow, whenever payment verification has succeeded and
  the result API responds with a non-success status, the flow returns that same upstream
  status and a message (the truthy \<open>message\<close> of the upstream JSON body, else the
  \<open>API Error\<close> text), except when the upstream status is 404, where the outward status is
  500 and the message is the fixed text, and except when no response with a body can be
  built with the upstream status (304, or a status outside 200 to 599), where the flow
  answers 502 with its failed-to-connect message.\<close>

theorem C3_status_of_failed_lookup:
  assumes "passes_full_validation requestData"
    and "verifyPayment (fetch paymentDbCall) (read_prop requestData ''identifier'')
           (read_prop requestData ''roll'') (read_prop requestData ''no'') = None"
    and "apiUrl (read_prop requestData ''roll'') (read_prop requestData ''no'')
           (read_prop requestData ''registration'') = Inr url"
    and "fetch (url, []) = Resolved apiResponse"
    and "\<not> ok apiResponse"
  shows "onRequest fetch (full_request requestData) =
           (\<lparr>status =
               (if up_status apiResponse < 200 \<or> 599 < up_status apiResponse \<or>
                   up_status apiResponse = 304 then 502
                else if up_status apiResponse = 404 then 500
                else up_status apiResponse),
             headers = corsHeaders @ [(''Content-Type'', ''application/json'')],
             body = Some (JObj [(''message'',
               (if up_status apiResponse < 200 \<or> 599 < up_status apiResponse \<or>
                   up_status apiResponse = 304
                then JStr ''Failed to connect to the results service for full details.''
                else if up_status apiResponse = 404
                then JStr ''Result found (payment verified), but could not retrieve full details with the provided Roll, No, and Registration Number. Please check these details or contact support.''
                else errorText apiResponse))])\<rparr>,
            [paymentDbCall, (url, [])])"
proof -
  have run: "handleFullResultRequest fetch (Some requestData) =
      (Inr (full_result_fetched (Resolved apiResponse)), [paymentDbCall, (url, [])])"
    using passes_full_run [OF assms(1), of fetch] assms(2-4) by auto
  show ?thesis
  proof (cases "up_status apiResponse < 200 \<or> 599 < up_status apiResponse \<or>
      up_status apiResponse = 304")
    case True
    then show ?thesis
      using run full_result_fetched_refused [OF True]
      by (simp add: full_request_routed json_response_def message_def)
  next
    case False
    then have "200 \<le> up_status apiResponse" "up_status apiResponse \<le> 599"
      "up_status apiResponse \<noteq> 304"
      by auto
    from full_result_fetched_status [OF assms(5) this] False run show ?thesis
      by (simp add: full_request_routed json_response_def message_def)
  qed
qed

theorem C3_status_of_failed_lookup_witness:
  "passes_full_validation sample_full_body \<and>
   onRequest
     (two_services (json_ok (JArr [sample_record]))
        (Resolved \<lparr>up_status = 404, up_statusText = ''Not Found'', up_json = None\<rparr>))
     (full_request sample_full_body) =
   (\<lparr>status = 500, headers = corsHeaders @ [(''Content-Type'', ''application/json'')],
     body = Some (JObj [(''message'', JStr
       ''Result found (payment verified), but could not retrieve full details with the provided Roll, No, and Registration Number. Please check these details or contact support.'')])\<rparr>,
    [paymentDbCall, (sample_url, [])]) \<and>
   onRequest
     (two_services (json_ok (JArr [sample_record]))
        (Resolved \<lparr>up_status = 503, up_statusText = ''Service Unavailable'',
           up_json = Some (JObj [(''message'', JStr ''Maintenance'')])\<rparr>))
     (full_request sample_full_body) =
   (\<lparr>status = 503, headers = corsHeaders @ [(''Content-Type'', ''application/json'')],
     body = Some (JObj [(''message'', JStr ''Maintenance'')])\<rparr>,
    [paymentDbCall, (sample_url, [])])"
proof -
  let ?db = "json_ok (JArr [sample_record])"
  let ?nf = "\<lparr>up_status = 404, up_statusText = ''Not Found'', up_json = None\<rparr>"
  let ?su = "\<lparr>up_status = 503, up_statusText = ''Service Unavailable'',
               up_json = Some (JObj [(''message'', JStr ''Maintenance'')])\<rparr>"
  have v: "passes_full_validation sample_full_body"
    by (simp add: notion_eval sample_eval string_eval value_eval invalid_fields_def)
  have u: "apiUrl (read_prop sample_full_body ''roll'') (read_prop sample_full_body ''no'')
             (read_prop sample_full_body ''registration'') = Inr sample_url"
    by (simp add: sample_eval string_eval value_eval apiUrl_def BOARD_API_BASE_URL_def)
  have d: "(sample_url, []) \<noteq> paymentDbCall"
    by (simp add: sample_url_def paymentDbCall_def)
  have p: "verifyPayment ?db (read_prop sample_full_body ''identifier'')
             (read_prop sample_full_body ''roll'') (read_prop sample_full_body ''no'') = None"
    by (simp add: sample_eval string_eval value_eval verifyPayment_def record_matches_def
        lowered_equals_def ok_def)
  have p1: "verifyPayment (two_services ?db (Resolved ?nf) paymentDbCall)
             (read_prop sample_full_body ''identifier'')
             (read_prop sample_full_body ''roll'') (read_prop sample_full_body ''no'') = None"
    and p2: "verifyPayment (two_services ?db (Resolved ?su) paymentDbCall)
             (read_prop sample_full_body ''identifier'')
             (read_prop sample_full_body ''roll'') (read_prop sample_full_body ''no'') = None"
    using p by (simp_all add: two_services_def)
  have f1: "two_services ?db (Resolved ?nf) (sample_url, []) = Resolved ?nf"
    and f2: "two_services ?db (Resolved ?su) (sample_url, []) = Resolved ?su"
    using d by (simp_all add: two_services_def)
  have n1: "\<not> ok ?nf" and n2: "\<not> ok ?su"
    by (simp_all add: ok_def)
  show ?thesis
    using v C3_status_of_failed_lookup [OF v p1 u f1 n1]
      C3_status_of_failed_lookup [OF v p2 u f2 n2]
    by (simp add: errorText_def get_prop_def object_get_def)
qed

section \<open>The referral table (C4)\<close>

text \<open>Where the resolution does what the specification says: an absent or empty key gives
  the default, and a string whose lower-case form is not a member of \<open>Object.prototype\<close>
  gives the entry of the table, or the default when the table has none.\<close>

lemma paymentButtonIdToUse_absent:
  "paymentButtonIdToUse JUndefined = Inr defaultRazorpayButtonId"
  by (simp add: paymentButtonIdToUse_def)

lemma paymentButtonIdToUse_own:
  assumes "toLowerCase k \<notin> set object_prototype_keys"
  shows "paymentButtonIdToUse (JStr k) =
           Inr (case map_of referralButtonMap (toLowerCase k) of
                  Some v \<Rightarrow> v
                | None \<Rightarrow> defaultRazorpayButtonId)"
proof (cases "map_of referralButtonMap (toLowerCase k)")
  case None
  with assms show ?thesis
    by (simp add: paymentButtonIdToUse_def object_get_def)
next
  case (Some v)
  then have "(toLowerCase k, v) \<in> set referralButtonMap"
    by (rule map_of_SomeD)
  then have "truthy v" and "toLowerCase k \<noteq> []"
    by (auto simp: referralButtonMap_def)
  then have "truthy v" and "k \<noteq> []"
    by (auto simp: toLowerCase_def)
  with Some show ?thesis
    by (simp add: paymentButtonIdToUse_def object_get_def)
qed

text \<open>C4: a referral key whose lower-case form is not an entry of the table resolves to the
  default button id. The code does not do so for \<open>constructor\<close>, in any casing: the table is
  a plain object, the lookup finds the member inherited from \<open>Object.prototype\<close>, which is
  truthy, and that function, not the default, becomes the button id of the response.\<close>

theorem C4_inherited_key_not_default:
  "toLowerCase ''constructor'' \<notin> set (map fst referralButtonMap) \<and>
   paymentButtonIdToUse (JStr ''constructor'') = Inr (JBuiltin ''constructor'') \<and>
   JBuiltin ''constructor'' \<noteq> defaultRazorpayButtonId \<and>
   fst (onRequest (two_services Rejected (json_ok (JObj [(''name'', JStr ''A. Student'')])))
          (details_request
             (JObj [(''roll'', JStr ''123456''), (''no'', JStr ''1234''),
                    (''registration'', JStr ''REG1''), (''referralKey'', JStr ''Constructor'')]))) =
   json_response 200
     (JObj [(''name'', JStr ''A. Student''), (''rollNo'', JUndefined), (''regNo'', JUndefined),
            (''paymentButtonId'', JBuiltin ''constructor'')])"
  by (simp add: sample_eval string_eval value_eval flow_eval)

section \<open>The URL of the result API (C5)\<close>

text \<open>Where the URL is what the specification says: roll and serial given as strings are
  concatenated.\<close>

lemma apiUrl_strings:
  "apiUrl (JStr r) (JStr n) (JStr g) = Inr (BOARD_API_BASE_URL @ ''/'' @ r @ n @ ''/'' @ trim g)"
  by (simp add: apiUrl_def js_add_def)

text \<open>C5: for every request that passes validation the URL is the base, the concatenation
  of roll and serial, and the trimmed registration. The code does not do so when roll and
  serial are both JSON numbers: the regular expressions accept them (they test the
  converted strings), and \<open>roll + no\<close> is then their sum.\<close>

theorem C5_numeric_roll_and_serial_are_added:
  "passes_details_validation
     (JObj [(''roll'', JNum 123456), (''no'', JNum 1234), (''registration'', JStr ''REG1'')]) \<and>
   snd (onRequest fetch (details_request
     (JObj [(''roll'', JNum 123456), (''no'', JNum 1234), (''registration'', JStr ''REG1'')]))) =
   [(''https://boardresultapi.abplive.com/wb/2025/12/124690/REG1'', [])]"
  by (simp add: notion_eval sample_eval string_eval value_eval flow_eval)


section \<open>Payment data that is not a list (C6)\<close>

text \<open>C6 as stated fails: the payment store answers with a body that parses as JSON and is
  not an array, but with the status 500. The flow tests \<open>ok\<close> before it parses the body
  and responds 503 with the message of the store error, not 500 with the format message.\<close>

theorem C6_store_error_answers_503:
  "passes_full_validation sample_full_body \<and>
   \<not> is_array (JObj [(''error'', JStr ''database unavailable'')]) \<and>
   onRequest
     (two_services
        (Resolved \<lparr>up_status = 500, up_statusText = ''Internal Server Error'',
           up_json = Some (JObj [(''error'', JStr ''database unavailable'')])\<rparr>)
        Rejected)
     (full_request sample_full_body) =
   (\<lparr>status = 503, headers = corsHeaders @ [(''Content-Type'', ''application/json'')],
     body = Some (JObj [(''message'',
       JStr ''Could not verify details at this time (DB Error).'')])\<rparr>,
    [paymentDbCall])"
  by (simp add: notion_eval sample_eval string_eval value_eval flow_eval)

text \<open>C6, amended: in the full-result flow, for every payment-store response with a success
  status whose body parses as JSON but is not an array, the flow responds 500 with the
  message \<open>Payment data format error.\<close>; the only call made is the one to the payment
  store, so neither the scan of the records nor the result fetch takes place.\<close>

theorem C6_payment_data_not_an_array:
  assumes "passes_full_validation requestData"
    and "fetch paymentDbCall = Resolved paymentDbResponse"
    and "ok paymentDbResponse"
    and "up_json paymentDbResponse = Some paymentData"
    and "\<not> is_array paymentData"
  shows "onRequest fetch (full_request requestData) =
           (\<lparr>status = 500, headers = corsHeaders @ [(''Content-Type'', ''application/json'')],
             body = Some (JObj [(''message'', JStr ''Payment data format error.'')])\<rparr>,
            [paymentDbCall])"
proof -
  have "verifyPayment (fetch paymentDbCall) (read_prop requestData ''identifier'')
          (read_prop requestData ''roll'') (read_prop requestData ''no'') =
        Some (json_response 500 (message ''Payment data format error.''))"
    using assms(2-5) by (cases paymentData) (simp_all add: verifyPayment_def)
  with passes_full_run [OF assms(1), of fetch] show ?thesis
    by (auto simp: full_request_routed json_response_def message_def)
qed

theorem C6_payment_data_not_an_array_witness:
  "passes_full_validation sample_full_body \<and>
   onRequest (two_services (json_ok (JObj [(''payments'', JArr [sample_record])])) Rejected)
     (full_request sample_full_body) =
   (\<lparr>status = 500, headers = corsHeaders @ [(''Content-Type'', ''application/json'')],
     body = Some (JObj [(''message'', JStr ''Payment data format error.'')])\<rparr>,
    [paymentDbCall])"
proof -
  have v: "passes_full_validation sample_full_body"
    by (simp add: notion_eval sample_eval string_eval value_eval invalid_fields_def)
  show ?thesis
    using v C6_payment_data_not_an_array [OF v,
        of "two_services (json_ok (JObj [(''payments'', JArr [sample_record])])) Rejected"
           "\<lparr>up_status = 200, up_statusText = ''OK'',
              up_json = Some (JObj [(''payments'', JArr [sample_record])])\<rparr>"
           "JObj [(''payments'', JArr [sample_record])]"]
    by (simp add: two_services_def json_ok_def ok_def)
qed

section \<open>Verification does not read the registration (C7)\<close>

text \<open>C7: two accepted full-result requests that agree on identifier, roll and serial have
  the same verification outcome (passed, or the same 403, 500 or 503 response) against the
  same payment store, whatever their registrations are.\<close>

theorem C7_verification_ignores_registration:
  assumes "passes_full_validation request1" and "passes_full_validation request2"
    and "read_prop request1 ''identifier'' = read_prop request2 ''identifier''"
    and "read_prop request1 ''roll'' = read_prop request2 ''roll''"
    and "read_prop request1 ''no'' = read_prop request2 ''no''"
  shows "verification_outcome (handleFullResultRequest fetch (Some request1)) =
         verification_outcome (handleFullResultRequest fetch (Some request2))"
  using assms(3-5)
  by (simp add: verification_outcome_run [OF assms(1)] verification_outcome_run [OF assms(2)])

theorem C7_verification_ignores_registration_witness:
  "passes_full_validation sample_full_body \<and>
   passes_full_validation
     (JObj [(''identifier'', JStr ''Test@X.com''), (''roll'', JStr ''123456''),
            (''no'', JStr ''1234''), (''registration'', JStr ''OTHER-REG'')]) \<and>
   read_prop sample_full_body ''registration'' \<noteq> JStr ''OTHER-REG'' \<and>
   verification_outcome
     (handleFullResultRequest (two_services (json_ok (JArr [])) Rejected)
        (Some sample_full_body)) =
   verification_outcome
     (handleFullResultRequest (two_services (json_ok (JArr [])) Rejected)
        (Some (JObj [(''identifier'', JStr ''Test@X.com''), (''roll'', JStr ''123456''),
                     (''no'', JStr ''1234''), (''registration'', JStr ''OTHER-REG'')])))"
proof -
  let ?other = "JObj [(''identifier'', JStr ''Test@X.com''), (''roll'', JStr ''123456''),
                      (''no'', JStr ''1234''), (''registration'', JStr ''OTHER-REG'')]"
  have v1: "passes_full_validation sample_full_body"
    by (simp add: notion_eval sample_eval string_eval value_eval invalid_fields_def)
  have v2: "passes_full_validation ?other"
    by (simp add: notion_eval string_eval value_eval invalid_fields_def)
  have same: "read_prop sample_full_body ''identifier'' = read_prop ?other ''identifier''"
    "read_prop sample_full_body ''roll'' = read_prop ?other ''roll''"
    "read_prop sample_full_body ''no'' = read_prop ?other ''no''"
    by (simp_all add: sample_eval value_eval)
  have differ: "read_prop sample_full_body ''registration'' \<noteq> JStr ''OTHER-REG''"
    by (simp add: sample_eval value_eval)
  show ?thesis
    using v1 v2 differ C7_verification_ignores_registration [OF v1 v2 same]
    by simp
qed

section \<open>Headers (C8)\<close>

lemma new_Response_headers:
  "new_Response st v = Inr r \<Longrightarrow>
     headers r = corsHeaders @ [(''Content-Type'', ''application/json'')]"
  by (auto simp: new_Response_def json_response_def split: if_splits)

lemma details_fetched_headers:
  "headers (details_fetched fetched button) =
     corsHeaders @ [(''Content-Type'', ''application/json'')]"
  by (auto simp: details_fetched_def json_response_def Let_def
      split: fetch_outcome.splits option.splits sum.splits dest: new_Response_headers)

lemma full_result_fetched_headers:
  "headers (full_result_fetched fetched) =
     corsHeaders @ [(''Content-Type'', ''application/json'')]"
  by (auto simp: full_result_fetched_def json_response_def Let_def
      split: fetch_outcome.splits option.splits sum.splits dest: new_Response_headers)

lemma verifyPayment_headers:
  "verifyPayment fetched identifier roll no = Some r \<Longrightarrow>
     headers r = corsHeaders @ [(''Content-Type'', ''application/json'')]"
  by (auto simp: verifyPayment_def json_response_def Let_def
      split: fetch_outcome.splits option.splits sum.splits jsval.splits bool.splits if_splits)

lemma handleDetailsRequest_headers:
  "fst (handleDetailsRequest fetch parsed) = Inr r \<Longrightarrow>
     headers r = corsHeaders @ [(''Content-Type'', ''application/json'')]"
  by (auto simp: handleDetailsRequest_def json_response_def Let_def details_fetched_headers
      split: option.splits sum.splits bool.splits)

lemma handleFullResultRequest_headers:
  "fst (handleFullResultRequest fetch parsed) = Inr r \<Longrightarrow>
     headers r = corsHeaders @ [(''Content-Type'', ''application/json'')]"
  by (auto simp: handleFullResultRequest_def json_response_def Let_def
      full_result_fetched_headers
      split: option.splits sum.splits bool.splits dest: verifyPayment_headers)

text \<open>C8 as stated fails: the response to \<open>OPTIONS\<close> is built from the cross-origin headers
  alone and has no content type.\<close>

theorem C8_options_has_no_content_type:
  "map_of (headers (fst (onRequest (\<lambda>c. Rejected)
      \<lparr>req_method = ''OPTIONS'', req_pathname = ''/api/details'', req_json = None\<rparr>)))
     ''Content-Type'' = None"
  by (simp add: onRequest_def corsHeaders_def)

text \<open>C8, amended: every response of the handler carries the three fixed cross-origin
  headers; every response other than the one to \<open>OPTIONS\<close> carries, after them, the JSON
  content type, and the response to \<open>OPTIONS\<close> carries nothing else.\<close>

theorem C8_headers_of_every_response:
  "headers (fst (onRequest fetch req)) =
     (if req_method req = ''OPTIONS'' then corsHeaders
      else corsHeaders @ [(''Content-Type'', ''application/json'')])"
proof -
  have d: "headers (case handleDetailsRequest fetch (req_json req) of
        (Inr r, calls) \<Rightarrow> r
      | (Inl e, calls) \<Rightarrow> json_response 500 (message (error_message e))) =
      corsHeaders @ [(''Content-Type'', ''application/json'')]"
    using handleDetailsRequest_headers [of fetch "req_json req"]
    by (cases "handleDetailsRequest fetch (req_json req)")
       (auto simp: json_response_def split: sum.splits)
  have f: "headers (case handleFullResultRequest fetch (req_json req) of
        (Inr r, calls) \<Rightarrow> r
      | (Inl e, calls) \<Rightarrow> json_response 500 (message (error_message e))) =
      corsHeaders @ [(''Content-Type'', ''application/json'')]"
    using handleFullResultRequest_headers [of fetch "req_json req"]
    by (cases "handleFullResultRequest fetch (req_json req)")
       (auto simp: json_response_def split: sum.splits)
  have fst_case: "\<And>run. fst (case run of (Inr r, calls) \<Rightarrow> (r, calls)
          | (Inl e, calls) \<Rightarrow> (json_response 500 (message (error_message e)), calls)) =
        (case run of (Inr r, calls) \<Rightarrow> r
          | (Inl e, calls) \<Rightarrow> json_response 500 (message (error_message e)))"
    by (auto split: prod.splits sum.splits)
  show ?thesis
    using d f by (simp add: onRequest_def fst_case json_response_def)
qed

theorem C8_headers_of_every_response_witness:
  "set corsHeaders \<subseteq> set (headers (fst (onRequest (\<lambda>c. Rejected) (full_request JNull)))) \<and>
   map_of (headers (fst (onRequest (\<lambda>c. Rejected) (full_request JNull)))) ''Content-Type'' =
     Some ''application/json''"
  using C8_headers_of_every_response [of "\<lambda>c. Rejected" "full_request JNull"]
  by (simp add: full_request_def corsHeaders_def)

section \<open>An identifier that is not a string (C9)\<close>

text \<open>C9: in the full-result flow a truthy identifier that is not a string, with the other
  fields valid, passes validation; once the payment store has answered with a list, the
  lower-casing of the identifier throws inside step 1 and the flow responds 500 with
  \<open>Error during payment verification.\<close>, not 400.\<close>

theorem C9_non_string_identifier:
  assumes "passes_details_validation requestData"
    and "truthy (read_prop requestData ''identifier'')"
    and "\<not> is_string (read_prop requestData ''identifier'')"
    and "fetch paymentDbCall = Resolved paymentDbResponse"
    and "ok paymentDbResponse"
    and "up_json paymentDbResponse = Some (JArr paymentData)"
  shows "passes_full_validation requestData \<and>
         onRequest fetch (full_request requestData) =
           (\<lparr>status = 500, headers = corsHeaders @ [(''Content-Type'', ''application/json'')],
             body = Some (JObj [(''message'', JStr ''Error during payment verification.'')])\<rparr>,
            [paymentDbCall])"
proof -
  have p: "passes_full_validation requestData"
    using assms(1,2) by (simp add: passes_full_validation_def)
  have "\<exists>e. call_toLowerCase (read_prop requestData ''identifier'') = Inl e"
    using assms(3) by (cases "read_prop requestData ''identifier''") simp_all
  then have "verifyPayment (fetch paymentDbCall) (read_prop requestData ''identifier'')
          (read_prop requestData ''roll'') (read_prop requestData ''no'') =
        Some (json_response 500 (message ''Error during payment verification.''))"
    using assms(4-6) by (auto simp: verifyPayment_def)
  with passes_full_run [OF p, of fetch] p show ?thesis
    by (auto simp: full_request_routed json_response_def message_def)
qed

theorem C9_non_string_identifier_witness:
  "passes_details_validation
     (JObj [(''identifier'', JNum 9876543210), (''roll'', JStr ''123456''),
            (''no'', JStr ''1234''), (''registration'', JStr ''REG1'')]) \<and>
   passes_full_validation
     (JObj [(''identifier'', JNum 9876543210), (''roll'', JStr ''123456''),
            (''no'', JStr ''1234''), (''registration'', JStr ''REG1'')]) \<and>
   onRequest (two_services (json_ok (JArr [sample_record])) Rejected)
     (full_request
        (JObj [(''identifier'', JNum 9876543210), (''roll'', JStr ''123456''),
               (''no'', JStr ''1234''), (''registration'', JStr ''REG1'')])) =
   (\<lparr>status = 500, headers = corsHeaders @ [(''Content-Type'', ''application/json'')],
     body = Some (JObj [(''message'', JStr ''Error during payment verification.'')])\<rparr>,
    [paymentDbCall])"
proof -
  let ?d = "JObj [(''identifier'', JNum 9876543210), (''roll'', JStr ''123456''),
                  (''no'', JStr ''1234''), (''registration'', JStr ''REG1'')]"
  have v: "passes_details_validation ?d"
    by (simp add: notion_eval string_eval value_eval invalid_fields_def)
  have t: "truthy (read_prop ?d ''identifier'')"
    and s: "\<not> is_string (read_prop ?d ''identifier'')"
    by (simp_all add: value_eval)
  show ?thesis
    using v C9_non_string_identifier [OF v t s,
        of "two_services (json_ok (JArr [sample_record])) Rejected"
           "\<lparr>up_status = 200, up_statusText = ''OK'', up_json = Some (JArr [sample_record])\<rparr>"
           "[sample_record]"]
    by (simp add: two_services_def json_ok_def ok_def)
qed

section \<open>Fields missing from the upstream result (C10)\<close>

text \<open>C10: in the details flow, when the result API answers an accepted request with a
  success status and a JSON object, the flow responds 200 whichever of \<open>name\<close>, \<open>ROll_No\<close>
  and \<open>Reg_No\<close> the object lacks: reading an absent field throws nothing, and the
  corresponding key of the payload is \<open>undefined\<close> (which serialising leaves out).\<close>

theorem C10_missing_fields_are_undefined:
  assumes "passes_details_validation requestData"
    and "string_or_falsy (read_prop requestData ''referralKey'')"
    and "apiUrl (read_prop requestData ''roll'') (read_prop requestData ''no'')
           (read_prop requestData ''registration'') = Inr url"
    and "fetch (url, []) = Resolved apiResponse"
    and "ok apiResponse"
    and "up_json apiResponse = Some (JObj props)"
  shows "\<exists>button.
           paymentButtonIdToUse (read_prop requestData ''referralKey'') = Inr button \<and>
           onRequest fetch (details_request requestData) =
             (\<lparr>status = 200,
               headers = corsHeaders @ [(''Content-Type'', ''application/json'')],
               body = Some
                 (JObj [(''name'', case map_of props ''name'' of Some v \<Rightarrow> v | None \<Rightarrow> JUndefined),
                        (''rollNo'',
                         case map_of props ''ROll_No'' of Some v \<Rightarrow> v | None \<Rightarrow> JUndefined),
                        (''regNo'',
                         case map_of props ''Reg_No'' of Some v \<Rightarrow> v | None \<Rightarrow> JUndefined),
                        (''paymentButtonId'', button)])\<rparr>,
              [(url, [])])"
proof -
  from paymentButtonIdToUse_string_or_falsy [OF assms(2)] obtain button where
    b: "paymentButtonIdToUse (read_prop requestData ''referralKey'') = Inr button" ..
  have p: "details_payload (JObj props) button =
      Inr (JObj [(''name'', case map_of props ''name'' of Some v \<Rightarrow> v | None \<Rightarrow> JUndefined),
                 (''rollNo'', case map_of props ''ROll_No'' of Some v \<Rightarrow> v | None \<Rightarrow> JUndefined),
                 (''regNo'', case map_of props ''Reg_No'' of Some v \<Rightarrow> v | None \<Rightarrow> JUndefined),
                 (''paymentButtonId'', button)])"
    by (simp add: details_payload_def value_eval split: option.splits)
  have f: "details_fetched (fetch (url, [])) button =
      json_response 200
        (JObj [(''name'', case map_of props ''name'' of Some v \<Rightarrow> v | None \<Rightarrow> JUndefined),
               (''rollNo'', case map_of props ''ROll_No'' of Some v \<Rightarrow> v | None \<Rightarrow> JUndefined),
               (''regNo'', case map_of props ''Reg_No'' of Some v \<Rightarrow> v | None \<Rightarrow> JUndefined),
               (''paymentButtonId'', button)])"
    using assms(4-6) p by (simp add: details_fetched_def)
  from assms(1) have "\<not> nullish requestData"
    and "invalid_fields (read_prop requestData ''roll'') (read_prop requestData ''no'')
           (read_prop requestData ''registration'') = Inr False"
    by (simp_all add: passes_details_validation_def)
  with b assms(3) f have "handleDetailsRequest fetch (Some requestData) =
      (Inr (json_response 200
        (JObj [(''name'', case map_of props ''name'' of Some v \<Rightarrow> v | None \<Rightarrow> JUndefined),
               (''rollNo'', case map_of props ''ROll_No'' of Some v \<Rightarrow> v | None \<Rightarrow> JUndefined),
               (''regNo'', case map_of props ''Reg_No'' of Some v \<Rightarrow> v | None \<Rightarrow> JUndefined),
               (''paymentButtonId'', button)])), [(url, [])])"
    by (simp add: handleDetailsRequest_def get_prop_def Let_def)
  with b show ?thesis
    by (simp add: details_request_routed json_response_def)
qed

theorem C10_missing_fields_are_undefined_witness:
  "passes_details_validation sample_details_body \<and>
   string_or_falsy (read_prop sample_details_body ''referralKey'') \<and>
   onRequest (two_services Rejected (json_ok (JObj [(''name'', JStr ''A. Student'')])))
     (details_request sample_details_body) =
   (\<lparr>status = 200, headers = corsHeaders @ [(''Content-Type'', ''application/json'')],
     body = Some
       (JObj [(''name'', JStr ''A. Student''), (''rollNo'', JUndefined), (''regNo'', JUndefined),
              (''paymentButtonId'', JStr ''pl_QMWdxwIPVZYTpi'')])\<rparr>,
    [(sample_url, [])])"
proof -
  have v: "passes_details_validation sample_details_body"
    by (simp add: notion_eval sample_eval string_eval value_eval invalid_fields_def)
  have k: "string_or_falsy (read_prop sample_details_body ''referralKey'')"
    by (simp add: string_or_falsy_def sample_eval value_eval)
  have u: "apiUrl (read_prop sample_details_body ''roll'') (read_prop sample_details_body ''no'')
             (read_prop sample_details_body ''registration'') = Inr sample_url"
    by (simp add: sample_eval string_eval value_eval apiUrl_def BOARD_API_BASE_URL_def)
  have b: "paymentButtonIdToUse (read_prop sample_details_body ''referralKey'') =
             Inr (JStr ''pl_QMWdxwIPVZYTpi'')"
    by (simp add: sample_eval string_eval value_eval paymentButtonIdToUse_def
        referralButtonMap_def)
  have n: "(sample_url, []) \<noteq> paymentDbCall"
    by (simp add: sample_url_def paymentDbCall_def)
  show ?thesis
    using v k b n C10_missing_fields_are_undefined [OF v k u,
        of "two_services Rejected (json_ok (JObj [(''name'', JStr ''A. Student'')]))"
           "\<lparr>up_status = 200, up_statusText = ''OK'',
              up_json = Some (JObj [(''name'', JStr ''A. Student'')])\<rparr>"
           "[(''name'', JStr ''A. Student'')]"]
    by (simp add: two_services_def json_ok_def ok_def)
qed

end
